theory Spec2Isabelle
  imports Main
begin

section \<open>The diagram generator of mermaid-server (internal/generator.go)\<close>

text \<open>
  The generator renders a diagram description through the mermaid command line tool and
  keeps the result in a cache; a clean-up sweep evicts the diagrams that were not used for
  a given duration. The generator talks to three collaborators: the cache (a Go interface),
  the operating system (files, the clock, the renderer's process) and the methods of
  \<open>Diagram\<close>. The collaborators are parameters of the model: each of their operations is a
  function on an abstract world \<open>'w\<close> that returns its result and the next world, and all
  theorems hold for every such function. The model threads the world through the calls
  in the order of the source and records every call in a trace.
\<close>

subsection \<open>Errors\<close>

text \<open>
  A Go \<open>error\<close> value. \<open>ErrNotExist\<close> is the error \<open>os.IsNotExist\<close> recognises, \<open>ErrOther\<close>
  any other error of a collaborator, and \<open>Errorf\<close> the result of \<open>fmt.Errorf\<close>: the format
  string and its arguments in order (\<open>%w\<close> takes an error, \<open>%s\<close> a string).
\<close>

datatype error = ErrNotExist | ErrOther string | Errorf string "fmtarg list"
  and fmtarg = ArgS string | ArgE error

text \<open>\<open>os.IsNotExist\<close> does not look through the wrapping of \<open>fmt.Errorf\<close>.\<close>

fun IsNotExist :: "error \<Rightarrow> bool" where
  "IsNotExist ErrNotExist = True"
| "IsNotExist (ErrOther m) = False"
| "IsNotExist (Errorf f as) = False"

subsection \<open>Data\<close>

text \<open>
  Modelled from the spec: the struct \<open>Diagram\<close> is declared outside generator.go. The
  fields are the ones generator.go reads and writes (\<open>description\<close>, \<open>imgType\<close>,
  \<open>Output\<close>) and the time stamp of section 3 of the specification. Times and durations
  are integers (nanoseconds).
\<close>

record Diagram =
  description :: string
  imgType :: string
  Output :: string
  lastTouched :: int

text \<open>
  Modelled from the spec: the interface \<open>DiagramCache\<close> is declared outside generator.go;
  its five operations are those of section 6 of the specification. An operation takes
  the world and returns its result (\<open>Inl\<close> or \<open>Some\<close>: the error) and the next world.
\<close>

record 'w DiagramCache =
  Has :: "Diagram \<Rightarrow> 'w \<Rightarrow> (error + bool) \<times> 'w"
  Get :: "Diagram \<Rightarrow> 'w \<Rightarrow> (error + Diagram) \<times> 'w"
  Store :: "Diagram \<Rightarrow> 'w \<Rightarrow> error option \<times> 'w"
  GetAll :: "'w \<Rightarrow> (error + Diagram list) \<times> 'w"
  Delete :: "Diagram \<Rightarrow> 'w \<Rightarrow> error option \<times> 'w"

text \<open>The struct \<open>cachingGenerator\<close>.\<close>

record 'w cachingGenerator =
  cache :: "'w DiagramCache"
  mermaidCLIPath :: string
  inPath :: string
  outPath :: string
  puppeteerConfigPath :: string

text \<open>
  What generator.go calls outside the cache: \<open>ioutil.WriteFile\<close> (always with the mode
  0644, which is left out), \<open>os.Stat\<close>, \<open>os.Remove\<close>, running the command built by
  \<open>exec.Command\<close> (the result is the error of \<open>cmd.Run\<close> with the contents of the two
  buffers behind \<open>cmd.Stdout\<close> and \<open>cmd.Stderr\<close>), \<open>time.Now\<close>, and the fingerprint
  behind the method \<open>Diagram.ID\<close>.
\<close>

record 'w runtime =
  WriteFile :: "string \<Rightarrow> string \<Rightarrow> 'w \<Rightarrow> error option \<times> 'w"
  Stat :: "string \<Rightarrow> 'w \<Rightarrow> error option \<times> 'w"
  Remove :: "string \<Rightarrow> 'w \<Rightarrow> error option \<times> 'w"
  Run :: "string \<Rightarrow> string list \<Rightarrow> 'w \<Rightarrow> (error option \<times> string \<times> string) \<times> 'w"
  Now :: "'w \<Rightarrow> int \<times> 'w"
  fingerprint :: "string \<Rightarrow> string \<Rightarrow> error + string"

subsection \<open>The trace of calls\<close>

datatype event =
    EvHas Diagram
  | EvGet Diagram
  | EvStore Diagram
  | EvGetAll
  | EvDelete Diagram
  | EvWriteFile string string
  | EvStat string
  | EvRemove string
  | EvExec string "string list"
  | EvLog string "string list"

record 'w sys =
  world :: 'w
  trace :: "event list"

text \<open>A call of a collaborator: the world moves on and the call is appended to the trace.\<close>

definition call :: "event \<Rightarrow> ('w \<Rightarrow> 'r \<times> 'w) \<Rightarrow> 'w sys \<Rightarrow> 'r \<times> 'w sys" where
  "call ev f s = (case f (world s) of (r, w') \<Rightarrow> (r, \<lparr>world = w', trace = trace s @ [ev]\<rparr>))"

text \<open>\<open>log.Printf\<close>: the format string and its arguments.\<close>

definition Printf :: "string \<Rightarrow> string list \<Rightarrow> 'w sys \<Rightarrow> 'w sys" where
  "Printf f as s = s\<lparr>trace := trace s @ [EvLog f as]\<rparr>"

text \<open>\<open>time.Now()\<close> is not recorded in the trace; the world may still move (the clock).\<close>

definition now :: "'w runtime \<Rightarrow> 'w sys \<Rightarrow> int \<times> 'w sys" where
  "now rt s = (case Now rt (world s) of (t, w') \<Rightarrow> (t, s\<lparr>world := w'\<rparr>))"

subsection \<open>The methods of Diagram\<close>

text \<open>
  Modelled from the spec: \<open>Diagram.ID\<close> is defined outside generator.go. Section 3: the
  identity is a deterministic fingerprint of the description (and the image type).
\<close>

definition ID :: "'w runtime \<Rightarrow> Diagram \<Rightarrow> error + string" where
  "ID rt d = fingerprint rt (description d) (imgType d)"

text \<open>
  Modelled from the spec: \<open>Diagram.Touch\<close> is defined outside generator.go. Section 4.1:
  it advances \<open>lastTouched\<close> to the current time.
\<close>

definition Touch :: "'w runtime \<Rightarrow> Diagram \<Rightarrow> 'w sys \<Rightarrow> Diagram \<times> 'w sys" where
  "Touch rt d s = (case now rt s of (t, s') \<Rightarrow> (d\<lparr>lastTouched := t\<rparr>, s'))"

text \<open>
  Modelled from the spec: \<open>Diagram.TouchedInDuration\<close> is defined outside generator.go.
  Section 4.2: whether \<open>lastTouched\<close> falls within the duration of the current time. The
  specification fixes both sides of the boundary (a diagram touched at \<open>now - W - \<epsilon>\<close> is
  not within \<open>W\<close>, one touched at \<open>now - W + \<epsilon>\<close> is) and not the boundary itself, which is
  placed outside the window here.
\<close>

definition TouchedInDuration :: "'w runtime \<Rightarrow> Diagram \<Rightarrow> int \<Rightarrow> 'w sys \<Rightarrow> bool \<times> 'w sys" where
  "TouchedInDuration rt d duration s =
     (case now rt s of (t, s') \<Rightarrow> (t - duration < lastTouched d, s'))"

subsection \<open>generate\<close>

text \<open>The two paths of \<open>generate\<close> (lines 86 and 88) and the two of \<open>delete\<close> (158, 159).\<close>

definition generate_inPath :: "'w cachingGenerator \<Rightarrow> string \<Rightarrow> string" where
  "generate_inPath c ident = inPath c @ ''/'' @ ident @ ''.mmd''"

definition generate_outPath :: "'w cachingGenerator \<Rightarrow> string \<Rightarrow> Diagram \<Rightarrow> string" where
  "generate_outPath c ident d = outPath c @ ''/'' @ ident @ ''.'' @ imgType d"

definition delete_inPath :: "'w cachingGenerator \<Rightarrow> string \<Rightarrow> string" where
  "delete_inPath c ident = inPath c @ ''/'' @ ident @ ''.mmd''"

definition delete_outPath :: "'w cachingGenerator \<Rightarrow> string \<Rightarrow> string" where
  "delete_outPath c ident = outPath c @ ''/'' @ ident @ ''.svg''"

text \<open>The arguments of the mermaid command (lines 105 to 112).\<close>

definition mermaid_args :: "'w cachingGenerator \<Rightarrow> string \<Rightarrow> string \<Rightarrow> string list" where
  "mermaid_args c inP outP =
     (let args = [''-i'', inP, ''-o'', outP]
      in if puppeteerConfigPath c \<noteq> '''' then args @ [''-p'', puppeteerConfigPath c] else args)"

text \<open>
  \<open>generate\<close> returns the error (\<open>None\<close> is Go's \<open>nil\<close>), the caller's diagram as the call
  leaves it, and the next state.
\<close>

definition generate ::
  "'w cachingGenerator \<Rightarrow> 'w runtime \<Rightarrow> Diagram \<Rightarrow> 'w sys \<Rightarrow> error option \<times> Diagram \<times> 'w sys" where
  "generate c rt diagram s =
     (case ID rt diagram of
        Inl err \<Rightarrow> (Some (Errorf ''cannot get diagram ID: %w'' [ArgE err]), diagram, s)
      | Inr ident \<Rightarrow>
          (let inP = generate_inPath c ident;
               outP = generate_outPath c ident diagram
           in (case call (EvWriteFile inP (description diagram))
                         (WriteFile rt inP (description diagram)) s of
                 (Some err, s1) \<Rightarrow>
                   (Some (Errorf ''could not write to input file [%s]: %w'' [ArgS inP, ArgE err]),
                    diagram, s1)
               | (None, s1) \<Rightarrow>
                   (case call (EvStat (mermaidCLIPath c)) (Stat rt (mermaidCLIPath c)) s1 of
                      (Some err, s2) \<Rightarrow>
                        (if IsNotExist err
                         then (Some (Errorf ''mermaid executable does not exist: %w'' [ArgE err]),
                               diagram, s2)
                         else (Some (Errorf ''could not stat mermaid executable: %w'' [ArgE err]),
                               diagram, s2))
                    | (None, s2) \<Rightarrow>
                        (let args = mermaid_args c inP outP
                         in (case call (EvExec (mermaidCLIPath c) args)
                                       (Run rt (mermaidCLIPath c) args) s2 of
                               ((Some err, stdOut, stdErr), s3) \<Rightarrow>
                                 (Some (Errorf ''failed when executing mermaid: %w: %s: %s''
                                          [ArgE err, ArgS stdOut, ArgS stdErr]),
                                  diagram, s3)
                             | ((None, stdOut, stdErr), s3) \<Rightarrow>
                                 (None, diagram\<lparr>Output := outP\<rparr>,
                                  Printf ''Generated: %s: %s: %s'' [ident, stdOut, stdErr] s3)))))))"

subsection \<open>Generate\<close>

definition Generate ::
  "'w cachingGenerator \<Rightarrow> 'w runtime \<Rightarrow> Diagram \<Rightarrow> 'w sys \<Rightarrow> error option \<times> Diagram \<times> 'w sys" where
  "Generate c rt diagram s =
     (case call (EvHas diagram) (Has (cache c) diagram) s of
        (Inl err, s1) \<Rightarrow> (Some (Errorf ''cache.Has failed: %w'' [ArgE err]), diagram, s1)
      | (Inr True, s1) \<Rightarrow>
          (case call (EvGet diagram) (Get (cache c) diagram) s1 of
             (Inl err, s2) \<Rightarrow> (Some (Errorf ''cache.Get failed: %w'' [ArgE err]), diagram, s2)
           | (Inr cached, s2) \<Rightarrow>
               (case Touch rt cached s2 of
                  (diagram', s3) \<Rightarrow>
                    (case call (EvStore diagram') (Store (cache c) diagram') s3 of
                       (Some err, s4) \<Rightarrow>
                         (Some (Errorf ''cache.Store failed: %w'' [ArgE err]), diagram', s4)
                     | (None, s4) \<Rightarrow> (None, diagram', s4))))
      | (Inr False, s1) \<Rightarrow>
          (case Touch rt diagram s1 of
             (diagram', s2) \<Rightarrow>
               (case generate c rt diagram' s2 of
                  (Some err, diagram'', s3) \<Rightarrow>
                    (Some (Errorf ''cachingGenerater.generate failed: %w'' [ArgE err]),
                     diagram'', s3)
                | (None, diagram'', s3) \<Rightarrow>
                    (case call (EvStore diagram'') (Store (cache c) diagram'') s3 of
                       (Some err, s4) \<Rightarrow>
                         (Some (Errorf ''cache.Store failed: %w'' [ArgE err]), diagram'', s4)
                     | (None, s4) \<Rightarrow> (None, diagram'', s4)))))"

subsection \<open>CleanUp and delete\<close>

definition delete :: "'w cachingGenerator \<Rightarrow> 'w runtime \<Rightarrow> Diagram \<Rightarrow> 'w sys \<Rightarrow> error option \<times> 'w sys" where
  "delete c rt diagram s =
     (case ID rt diagram of
        Inl err \<Rightarrow> (Some (Errorf ''cannot get diagram ID: %w'' [ArgE err]), s)
      | Inr ident \<Rightarrow>
          (let s0 = Printf ''Cleaning up diagram: %s'' [ident] s;
               inP = delete_inPath c ident;
               outP = delete_outPath c ident
           in (case call (EvRemove inP) (Remove rt inP) s0 of
                 (Some err, s1) \<Rightarrow>
                   (Some (Errorf ''could not delete diagram input: %w'' [ArgE err]), s1)
               | (None, s1) \<Rightarrow>
                   (case call (EvRemove outP) (Remove rt outP) s1 of
                      (Some err, s2) \<Rightarrow>
                        (Some (Errorf ''could not delete diagram output: %w'' [ArgE err]), s2)
                    | (None, s2) \<Rightarrow>
                        (case call (EvDelete diagram) (Delete (cache c) diagram) s2 of
                           (Some err, s3) \<Rightarrow>
                             (Some (Errorf ''could not remove diagram from cache: %w'' [ArgE err]),
                              s3)
                         | (None, s3) \<Rightarrow> (None, s3))))))"

text \<open>The loop of \<open>CleanUp\<close> (lines 139 to 145) over the diagrams that \<open>GetAll\<close> returned.\<close>

fun CleanUp_loop ::
  "'w cachingGenerator \<Rightarrow> 'w runtime \<Rightarrow> int \<Rightarrow> Diagram list \<Rightarrow> 'w sys \<Rightarrow> error option \<times> 'w sys" where
  "CleanUp_loop c rt duration [] s = (None, s)"
| "CleanUp_loop c rt duration (d # ds) s =
     (case TouchedInDuration rt d duration s of
        (touched, s1) \<Rightarrow>
          if \<not> touched
          then (case delete c rt d s1 of
                  (Some err, s2) \<Rightarrow> (Some (Errorf ''could not delete diagram: %w'' [ArgE err]), s2)
                | (None, s2) \<Rightarrow> CleanUp_loop c rt duration ds s2)
          else CleanUp_loop c rt duration ds s1)"

definition CleanUp :: "'w cachingGenerator \<Rightarrow> 'w runtime \<Rightarrow> int \<Rightarrow> 'w sys \<Rightarrow> error option \<times> 'w sys" where
  "CleanUp c rt duration s =
     (case call EvGetAll (GetAll (cache c)) (Printf ''Running cleanup'' [] s) of
        (Inl err, s1) \<Rightarrow> (Some (Errorf ''could not get cached diagrams: %w'' [ArgE err]), s1)
      | (Inr diagrams, s1) \<Rightarrow> CleanUp_loop c rt duration diagrams s1)"

subsection \<open>The events a call adds to the trace\<close>

definition new_events :: "'w sys \<Rightarrow> 'w sys \<Rightarrow> event list" where
  "new_events s s' = drop (length (trace s)) (trace s')"

fun is_Store :: "event \<Rightarrow> bool" where
  "is_Store (EvStore d) = True"
| "is_Store ev = False"

text \<open>The events of rendering: writing a file, looking at the executable, running it.\<close>

fun is_render :: "event \<Rightarrow> bool" where
  "is_render (EvWriteFile p b) = True"
| "is_render (EvStat p) = True"
| "is_render (EvExec p as) = True"
| "is_render ev = False"

subsection \<open>An in-memory cache and file system\<close>

text \<open>
  One instance of the collaborators, for running the generator on concrete inputs: files
  are a map from paths to contents, the cache is a list of records keyed by identity, the
  clock stands still, and \<open>failing\<close> names the calls that fail for an outside reason.
\<close>

record mem =
  files :: "string \<Rightarrow> string option"
  records :: "(string \<times> Diagram) list"
  clock :: int
  failing :: "event \<Rightarrow> bool"

text \<open>The identity of a diagram is its description; an empty description has none.\<close>

definition mem_fingerprint :: "string \<Rightarrow> string \<Rightarrow> error + string" where
  "mem_fingerprint desc ty = (if desc = [] then Inl (ErrOther ''empty description'') else Inr desc)"

fun remove_key :: "string \<Rightarrow> (string \<times> Diagram) list \<Rightarrow> (string \<times> Diagram) list" where
  "remove_key k [] = []"
| "remove_key k ((k', d) # kds) = (if k = k' then remove_key k kds else (k', d) # remove_key k kds)"

fun put_key :: "string \<Rightarrow> Diagram \<Rightarrow> (string \<times> Diagram) list \<Rightarrow> (string \<times> Diagram) list" where
  "put_key k d [] = [(k, d)]"
| "put_key k d ((k', d') # kds) = (if k = k' then (k, d) # kds else (k', d') # put_key k d kds)"

text \<open>
  Modelled from the spec: the cache behind the interface \<open>DiagramCache\<close> is not part of
  generator.go. Section 6: \<open>Has\<close> and \<open>Get\<close> look a record up by identity, \<open>Store\<close> is an
  upsert by identity, \<open>GetAll\<close> returns all records, \<open>Delete\<close> removes by identity and fails
  when there is no record.
\<close>

definition mem_Has :: "Diagram \<Rightarrow> mem \<Rightarrow> (error + bool) \<times> mem" where
  "mem_Has d w =
     (if failing w (EvHas d) then (Inl (ErrOther ''cache unavailable''), w)
      else case mem_fingerprint (description d) (imgType d) of
             Inl e \<Rightarrow> (Inl e, w)
           | Inr k \<Rightarrow> (Inr (map_of (records w) k \<noteq> None), w))"

definition mem_Get :: "Diagram \<Rightarrow> mem \<Rightarrow> (error + Diagram) \<times> mem" where
  "mem_Get d w =
     (if failing w (EvGet d) then (Inl (ErrOther ''cache unavailable''), w)
      else case mem_fingerprint (description d) (imgType d) of
             Inl e \<Rightarrow> (Inl e, w)
           | Inr k \<Rightarrow> (case map_of (records w) k of
                         None \<Rightarrow> (Inl (ErrOther ''no such diagram''), w)
                       | Some r \<Rightarrow> (Inr r, w)))"

definition mem_Store :: "Diagram \<Rightarrow> mem \<Rightarrow> error option \<times> mem" where
  "mem_Store d w =
     (if failing w (EvStore d) then (Some (ErrOther ''cache unavailable''), w)
      else case mem_fingerprint (description d) (imgType d) of
             Inl e \<Rightarrow> (Some e, w)
           | Inr k \<Rightarrow> (None, w\<lparr>records := put_key k d (records w)\<rparr>))"

definition mem_GetAll :: "mem \<Rightarrow> (error + Diagram list) \<times> mem" where
  "mem_GetAll w =
     (if failing w EvGetAll then (Inl (ErrOther ''cache unavailable''), w)
      else (Inr (map snd (records w)), w))"

definition mem_Delete :: "Diagram \<Rightarrow> mem \<Rightarrow> error option \<times> mem" where
  "mem_Delete d w =
     (if failing w (EvDelete d) then (Some (ErrOther ''cache unavailable''), w)
      else case mem_fingerprint (description d) (imgType d) of
             Inl e \<Rightarrow> (Some e, w)
           | Inr k \<Rightarrow> (case map_of (records w) k of
                         None \<Rightarrow> (Some (ErrOther ''no such diagram''), w)
                       | Some r \<Rightarrow> (None, w\<lparr>records := remove_key k (records w)\<rparr>)))"

definition mem_cache :: "mem DiagramCache" where
  "mem_cache = \<lparr>Has = mem_Has, Get = mem_Get, Store = mem_Store, GetAll = mem_GetAll,
                Delete = mem_Delete\<rparr>"

text \<open>
  The file system: writing creates or replaces the file, \<open>Stat\<close> and \<open>Remove\<close> fail with
  \<open>ErrNotExist\<close> on a path that has no file. The renderer writes the file named after
  \<open>-o\<close> unless it fails.
\<close>

definition mem_WriteFile :: "string \<Rightarrow> string \<Rightarrow> mem \<Rightarrow> error option \<times> mem" where
  "mem_WriteFile p b w =
     (if failing w (EvWriteFile p b) then (Some (ErrOther ''permission denied''), w)
      else (None, w\<lparr>files := (files w)(p \<mapsto> b)\<rparr>))"

definition mem_Stat :: "string \<Rightarrow> mem \<Rightarrow> error option \<times> mem" where
  "mem_Stat p w =
     (if failing w (EvStat p) then (Some (ErrOther ''permission denied''), w)
      else if files w p = None then (Some ErrNotExist, w)
      else (None, w))"

definition mem_Remove :: "string \<Rightarrow> mem \<Rightarrow> error option \<times> mem" where
  "mem_Remove p w =
     (if failing w (EvRemove p) then (Some (ErrOther ''permission denied''), w)
      else if files w p = None then (Some ErrNotExist, w)
      else (None, w\<lparr>files := (files w)(p := None)\<rparr>))"

definition mem_Run :: "string \<Rightarrow> string list \<Rightarrow> mem \<Rightarrow> (error option \<times> string \<times> string) \<times> mem" where
  "mem_Run p as w =
     (if failing w (EvExec p as) then ((Some (ErrOther ''exit status 1''), [], ''Parse error''), w)
      else case as of
             i # inP # out # outP # rest \<Rightarrow>
               ((None, ''Generating single mermaid chart'', []),
                w\<lparr>files := (files w)(outP \<mapsto> ''image'')\<rparr>)
           | _ \<Rightarrow> ((Some (ErrOther ''exit status 1''), [], ''usage''), w))"

definition mem_Now :: "mem \<Rightarrow> int \<times> mem" where
  "mem_Now w = (clock w, w)"

definition mem_rt :: "mem runtime" where
  "mem_rt = \<lparr>WriteFile = mem_WriteFile, Stat = mem_Stat, Remove = mem_Remove, Run = mem_Run,
             Now = mem_Now, fingerprint = mem_fingerprint\<rparr>"

text \<open>A generator over the in-memory collaborators, without and with a puppeteer file.\<close>

definition gen0 :: "mem cachingGenerator" where
  "gen0 = \<lparr>cache = mem_cache, mermaidCLIPath = ''/bin/mmdc'', inPath = ''in'', outPath = ''out'',
           puppeteerConfigPath = []\<rparr>"

definition gen1 :: "mem cachingGenerator" where
  "gen1 = gen0\<lparr>puppeteerConfigPath := ''/etc/puppeteer.json''\<rparr>"

definition start :: "mem \<Rightarrow> mem sys" where
  "start w = \<lparr>world = w, trace = []\<rparr>"

definition no_faults :: "event \<Rightarrow> bool" where
  "no_faults ev = False"

text \<open>A diagram as a caller makes it: a description and an image type.\<close>

definition fresh :: "string \<Rightarrow> string \<Rightarrow> Diagram" where
  "fresh desc ty = \<lparr>description = desc, imgType = ty, Output = [], lastTouched = 0\<rparr>"

text \<open>A cached record: the diagram after a successful render at the given time.\<close>

definition rendered :: "string \<Rightarrow> string \<Rightarrow> int \<Rightarrow> Diagram" where
  "rendered desc ty t =
     \<lparr>description = desc, imgType = ty, Output = ''out/'' @ desc @ ''.'' @ ty, lastTouched = t\<rparr>"

text \<open>The files of the given records, next to the executable.\<close>

fun files_of :: "Diagram list \<Rightarrow> string \<Rightarrow> string option" where
  "files_of [] = [''/bin/mmdc'' \<mapsto> ''#!/usr/bin/env node'']"
| "files_of (d # ds) =
     (files_of ds)(''in/'' @ description d @ ''.mmd'' \<mapsto> description d, Output d \<mapsto> ''image'')"

text \<open>A world that holds the given records and their files.\<close>

definition world_of :: "Diagram list \<Rightarrow> int \<Rightarrow> (event \<Rightarrow> bool) \<Rightarrow> mem" where
  "world_of ds t f =
     \<lparr>files = files_of ds, records = map (\<lambda>d. (description d, d)) ds, clock = t, failing = f\<rparr>"

subsection \<open>What the collaborators leave alone\<close>



subsection \<open>The sweep in terms of its calls\<close>







subsection \<open>Concrete generators, failures and worlds\<close>

text \<open>A generator whose executable is not installed.\<close>

definition gen2 :: "mem cachingGenerator" where
  "gen2 = gen0\<lparr>mermaidCLIPath := ''/opt/mmdc''\<rparr>"

text \<open>The runtime of the in-memory instance with a clock that advances at every reading.\<close>

definition ticking_rt :: "mem runtime" where
  "ticking_rt = mem_rt\<lparr>Now := (\<lambda>w. (clock w, w\<lparr>clock := clock w + 1\<rparr>))\<rparr>"


text \<open>
  Which calls fail for an outside reason: every run of the renderer (\<open>is_Exec\<close>), every
  \<open>Store\<close> (\<open>is_Store\<close>), the removal of one file, the deletion of one record.
\<close>

fun is_Exec :: "event \<Rightarrow> bool" where
  "is_Exec (EvExec p as) = True"
| "is_Exec ev = False"

definition out_denied :: "event \<Rightarrow> bool" where
  "out_denied ev = (ev = EvRemove ''out/A.svg'')"

definition inA_denied :: "event \<Rightarrow> bool" where
  "inA_denied ev = (ev = EvRemove ''in/A.mmd'')"

definition cacheA_denied :: "event \<Rightarrow> bool" where
  "cacheA_denied ev = (ev = EvDelete (rendered ''A'' ''svg'' 80))"

text \<open>Three stale records; the first can be deleted, the input file of the second cannot.\<close>

definition three :: "mem" where
  "three = world_of [rendered ''C'' ''svg'' 5, rendered ''A'' ''svg'' 5, rendered ''B'' ''svg'' 5]
             100 inA_denied"

definition three_swept :: "mem" where
  "three_swept = three\<lparr>files := (files three)(''in/C.mmd'' := None, ''out/C.svg'' := None),
                        records := [(''A'', rendered ''A'' ''svg'' 5), (''B'', rendered ''B'' ''svg'' 5)]\<rparr>"

text \<open>
  A sweep with a window of 10 that starts at time 100 under the advancing clock: \<open>A\<close> is
  examined at 100, \<open>B\<close> at 101 and \<open>C\<close> at 102. \<open>A\<close> was touched at \<open>100 - W - 1\<close>, \<open>B\<close> at
  \<open>102 - W + 1\<close>, \<open>C\<close> long ago. After the sweep only \<open>B\<close> is left.
\<close>

definition window_world :: "mem" where
  "window_world = world_of [rendered ''A'' ''svg'' 89, rendered ''B'' ''svg'' 93,
                            rendered ''C'' ''svg'' 5] 100 no_faults"

definition window_world_swept :: "mem" where
  "window_world_swept =
     window_world\<lparr>files := (files window_world)(''in/A.mmd'' := None, ''out/A.svg'' := None,
                                                  ''in/C.mmd'' := None, ''out/C.svg'' := None),
                  records := [(''B'', rendered ''B'' ''svg'' 93)], clock := 103\<rparr>"


text \<open>Two records outside the window of 10 at time 100; the cache cannot delete the first.\<close>

definition pair_world :: "mem" where
  "pair_world = world_of [rendered ''A'' ''svg'' 80, rendered ''B'' ''svg'' 89] 100 cacheA_denied"

section \<open>Properties\<close>

lemmas mem_defs = mem_cache_def mem_rt_def ticking_rt_def gen0_def gen1_def gen2_def start_def
  no_faults_def out_denied_def inA_denied_def cacheA_denied_def fresh_def rendered_def world_of_def
  three_def three_swept_def window_world_def window_world_swept_def pair_world_def
  mem_Has_def mem_Get_def mem_Store_def mem_GetAll_def mem_Delete_def
  mem_WriteFile_def mem_Stat_def mem_Remove_def mem_Run_def mem_Now_def mem_fingerprint_def

lemmas run_defs = Touch_def TouchedInDuration_def now_def generate_def delete_def ID_def call_def
  Printf_def generate_inPath_def generate_outPath_def delete_inPath_def delete_outPath_def
  mermaid_args_def Let_def

subsection \<open>The trace and the world along a call\<close>




text \<open>\<open>generate\<close> sets \<open>Output\<close> on its last line only: a failed call leaves the diagram alone.\<close>

lemma generate_failure_diagram: "generate c rt d s = (Some err, d', s') \<Longrightarrow> d' = d"
  by (auto simp: generate_def Let_def split: sum.splits prod.splits option.splits if_splits)





subsection \<open>A failed existence query\<close>

text \<open>
  Claim C7. When the first query of \<open>Generate\<close>, \<open>cache.Has\<close>, fails, \<open>Generate\<close> returns that
  error wrapped and does nothing else: the caller's diagram comes back as it was passed,
  the world is the one the query itself left, and the query is the only call in the trace
  (no \<open>Store\<close>, no file written, no renderer).
\<close>

theorem Generate_Has_error:
  assumes "Has (cache c) diagram (world s) = (Inl err, w')"
  shows "Generate c rt diagram s =
           (Some (Errorf ''cache.Has failed: %w'' [ArgE err]), diagram,
            \<lparr>world = w', trace = trace s @ [EvHas diagram]\<rparr>)"
  using assms by (simp add: Generate_def call_def)

text \<open>The cache of the in-memory instance is unavailable: every call fails.\<close>

theorem Generate_Has_error_witness:
  "Has (cache gen0) (fresh ''A'' ''svg'') (world (start (world_of [] 100 (\<lambda>ev. True))))
     = (Inl (ErrOther ''cache unavailable''), world_of [] 100 (\<lambda>ev. True))
   \<and> Generate gen0 mem_rt (fresh ''A'' ''svg'') (start (world_of [] 100 (\<lambda>ev. True)))
     = (Some (Errorf ''cache.Has failed: %w'' [ArgE (ErrOther ''cache unavailable'')]),
        fresh ''A'' ''svg'',
        \<lparr>world = world_of [] 100 (\<lambda>ev. True), trace = [EvHas (fresh ''A'' ''svg'')]\<rparr>)"
  using Generate_Has_error [of gen0 "fresh ''A'' ''svg''" "start (world_of [] 100 (\<lambda>ev. True))"
      "ErrOther ''cache unavailable''" "world_of [] 100 (\<lambda>ev. True)" mem_rt]
  by (simp add: mem_defs)

subsection \<open>The hit path\<close>

text \<open>
  Claim C4. When the cache reports a hit, \<open>Generate\<close> never renders: no call of the run
  writes a file, looks at the executable or runs it. It fetches the record; with the
  record fetched, the caller's diagram becomes that record with \<open>lastTouched\<close> set to the
  current time, the calls of the run are exactly \<open>Has\<close>, \<open>Get\<close> and the \<open>Store\<close> of the
  touched record, and \<open>Generate\<close> returns what \<open>Store\<close> returned (its error wrapped). When
  the fetch fails, \<open>Generate\<close> returns that error after \<open>Has\<close> and \<open>Get\<close> alone.
\<close>

theorem Generate_hit:
  assumes hit: "Has (cache c) diagram (world s) = (Inr True, w1)"
      and run: "Generate c rt diagram s = (res, d', s')"
  shows "(\<forall>ev\<in>set (new_events s s'). \<not> is_render ev)
       \<and> (\<forall>cached w2 t w3. Get (cache c) diagram w1 = (Inr cached, w2) \<longrightarrow> Now rt w2 = (t, w3) \<longrightarrow>
            d' = cached\<lparr>lastTouched := t\<rparr>
          \<and> new_events s s' = [EvHas diagram, EvGet diagram, EvStore (cached\<lparr>lastTouched := t\<rparr>)]
          \<and> res = map_option (\<lambda>err. Errorf ''cache.Store failed: %w'' [ArgE err])
                             (fst (Store (cache c) (cached\<lparr>lastTouched := t\<rparr>) w3))
          \<and> world s' = snd (Store (cache c) (cached\<lparr>lastTouched := t\<rparr>) w3))
       \<and> (\<forall>err w2. Get (cache c) diagram w1 = (Inl err, w2) \<longrightarrow>
            res = Some (Errorf ''cache.Get failed: %w'' [ArgE err]) \<and> d' = diagram
          \<and> new_events s s' = [EvHas diagram, EvGet diagram] \<and> world s' = w2)"
  using assms
  by (auto simp: Generate_def call_def Touch_def now_def new_events_def
           split: sum.splits prod.splits option.splits if_splits)

text \<open>
  The cache holds the diagram \<open>A\<close>, rendered at time 5; the caller asks for \<open>A\<close> at time 100.
\<close>

theorem Generate_hit_witness:
  "Has (cache gen0) (fresh ''A'' ''svg'') (world (start (world_of [rendered ''A'' ''svg'' 5] 100 no_faults)))
     = (Inr True, world_of [rendered ''A'' ''svg'' 5] 100 no_faults)
   \<and> Generate gen0 mem_rt (fresh ''A'' ''svg'') (start (world_of [rendered ''A'' ''svg'' 5] 100 no_faults))
     = (None, rendered ''A'' ''svg'' 100,
        \<lparr>world = world_of [rendered ''A'' ''svg'' 100] 100 no_faults,
         trace = [EvHas (fresh ''A'' ''svg''), EvGet (fresh ''A'' ''svg''),
                  EvStore (rendered ''A'' ''svg'' 100)]\<rparr>)
   \<and> Get (cache gen0) (fresh ''A'' ''svg'') (world_of [rendered ''A'' ''svg'' 5] 100 no_faults)
     = (Inr (rendered ''A'' ''svg'' 5), world_of [rendered ''A'' ''svg'' 5] 100 no_faults)
   \<and> Now mem_rt (world_of [rendered ''A'' ''svg'' 5] 100 no_faults)
     = (100, world_of [rendered ''A'' ''svg'' 5] 100 no_faults)
   \<and> filter is_render (new_events (start (world_of [rendered ''A'' ''svg'' 5] 100 no_faults))
          \<lparr>world = world_of [rendered ''A'' ''svg'' 100] 100 no_faults,
           trace = [EvHas (fresh ''A'' ''svg''), EvGet (fresh ''A'' ''svg''),
                    EvStore (rendered ''A'' ''svg'' 100)]\<rparr>) = []
   \<and> new_events (start (world_of [rendered ''A'' ''svg'' 5] 100 no_faults))
          \<lparr>world = world_of [rendered ''A'' ''svg'' 100] 100 no_faults,
           trace = [EvHas (fresh ''A'' ''svg''), EvGet (fresh ''A'' ''svg''),
                    EvStore (rendered ''A'' ''svg'' 100)]\<rparr>
     = [EvHas (fresh ''A'' ''svg''), EvGet (fresh ''A'' ''svg''),
        EvStore ((rendered ''A'' ''svg'' 5)\<lparr>lastTouched := 100\<rparr>)]"
  (is "?hit \<and> ?run \<and> ?get \<and> ?now \<and> ?norender \<and> ?events")
proof -
  have hit: ?hit by (simp add: mem_defs)
  have run: ?run by (simp add: mem_defs run_defs Generate_def)
  have get: ?get by (simp add: mem_defs)
  have now: ?now by (simp add: mem_defs)
  note main = Generate_hit [OF hit run]
  from main have norender: ?norender by (simp only: filter_empty_conv) blast
  from main get now have events: ?events by blast
  from hit run get now norender events show ?thesis by blast
qed

subsection \<open>A failed render\<close>



subsection \<open>The caller's diagram after an error\<close>

text \<open>
  Claim C9. \<open>Generate\<close> changes the caller's diagram also when it returns an error. On the
  hit path, when \<open>Store\<close> fails, the caller's diagram is the cached record with
  \<open>lastTouched\<close> set to the current time. On the miss path, when \<open>generate\<close> fails, the
  caller's diagram has \<open>lastTouched\<close> set to the current time. Neither is undone.
\<close>

theorem Generate_mutates_on_error:
  "(Has (cache c) diagram (world s) = (Inr True, w1) \<longrightarrow>
    Get (cache c) diagram w1 = (Inr cached, w2) \<longrightarrow>
    Now rt w2 = (t, w3) \<longrightarrow>
    Store (cache c) (cached\<lparr>lastTouched := t\<rparr>) w3 = (Some err, w4) \<longrightarrow>
      Generate c rt diagram s =
        (Some (Errorf ''cache.Store failed: %w'' [ArgE err]), cached\<lparr>lastTouched := t\<rparr>,
         \<lparr>world = w4,
          trace = trace s @ [EvHas diagram, EvGet diagram, EvStore (cached\<lparr>lastTouched := t\<rparr>)]\<rparr>))
 \<and> (Has (cache c') diagram' (world s') = (Inr False, w1') \<longrightarrow>
    Now rt' w1' = (t', w2') \<longrightarrow>
    generate c' rt' (diagram'\<lparr>lastTouched := t'\<rparr>)
         \<lparr>world = w2', trace = trace s' @ [EvHas diagram']\<rparr> = (Some err', d2, s3) \<longrightarrow>
      Generate c' rt' diagram' s' =
        (Some (Errorf ''cachingGenerater.generate failed: %w'' [ArgE err']),
         diagram'\<lparr>lastTouched := t'\<rparr>, s3))"
proof (intro conjI impI)
  assume "Has (cache c) diagram (world s) = (Inr True, w1)"
    "Get (cache c) diagram w1 = (Inr cached, w2)" "Now rt w2 = (t, w3)"
    "Store (cache c) (cached\<lparr>lastTouched := t\<rparr>) w3 = (Some err, w4)"
  then show "Generate c rt diagram s =
        (Some (Errorf ''cache.Store failed: %w'' [ArgE err]), cached\<lparr>lastTouched := t\<rparr>,
         \<lparr>world = w4,
          trace = trace s @ [EvHas diagram, EvGet diagram, EvStore (cached\<lparr>lastTouched := t\<rparr>)]\<rparr>)"
    by (simp add: Generate_def call_def Touch_def now_def)
next
  assume miss: "Has (cache c') diagram' (world s') = (Inr False, w1')"
    and clock: "Now rt' w1' = (t', w2')"
    and fail: "generate c' rt' (diagram'\<lparr>lastTouched := t'\<rparr>)
         \<lparr>world = w2', trace = trace s' @ [EvHas diagram']\<rparr> = (Some err', d2, s3)"
  from generate_failure_diagram [OF fail] have "d2 = diagram'\<lparr>lastTouched := t'\<rparr>" .
  with miss clock fail show "Generate c' rt' diagram' s' =
        (Some (Errorf ''cachingGenerater.generate failed: %w'' [ArgE err']),
         diagram'\<lparr>lastTouched := t'\<rparr>, s3)"
    by (simp add: Generate_def call_def Touch_def now_def)
qed

text \<open>
  A hit whose \<open>Store\<close> fails: the caller passed \<open>A\<close> with no output and gets the cached
  record back, touched at 100. A miss whose render fails: the caller's \<open>B\<close> is touched.
\<close>

theorem Generate_mutates_on_error_witness:
  "Has (cache gen0) (fresh ''A'' ''svg'') (world (start (world_of [rendered ''A'' ''svg'' 5] 100 is_Store)))
     = (Inr True, world_of [rendered ''A'' ''svg'' 5] 100 is_Store)
   \<and> Get (cache gen0) (fresh ''A'' ''svg'') (world_of [rendered ''A'' ''svg'' 5] 100 is_Store)
     = (Inr (rendered ''A'' ''svg'' 5), world_of [rendered ''A'' ''svg'' 5] 100 is_Store)
   \<and> Now mem_rt (world_of [rendered ''A'' ''svg'' 5] 100 is_Store)
     = (100, world_of [rendered ''A'' ''svg'' 5] 100 is_Store)
   \<and> Store (cache gen0) ((rendered ''A'' ''svg'' 5)\<lparr>lastTouched := 100\<rparr>)
        (world_of [rendered ''A'' ''svg'' 5] 100 is_Store)
     = (Some (ErrOther ''cache unavailable''), world_of [rendered ''A'' ''svg'' 5] 100 is_Store)
   \<and> fst (Generate gen0 mem_rt (fresh ''A'' ''svg'')
        (start (world_of [rendered ''A'' ''svg'' 5] 100 is_Store)))
     = Some (Errorf ''cache.Store failed: %w'' [ArgE (ErrOther ''cache unavailable'')])
   \<and> fst (snd (Generate gen0 mem_rt (fresh ''A'' ''svg'')
        (start (world_of [rendered ''A'' ''svg'' 5] 100 is_Store))))
     = \<lparr>description = ''A'', imgType = ''svg'', Output = ''out/A.svg'', lastTouched = 100\<rparr>
   \<and> Has (cache gen0) (fresh ''B'' ''png'') (world (start (world_of [] 100 is_Exec)))
     = (Inr False, world_of [] 100 is_Exec)
   \<and> Now mem_rt (world_of [] 100 is_Exec) = (100, world_of [] 100 is_Exec)
   \<and> generate gen0 mem_rt ((fresh ''B'' ''png'')\<lparr>lastTouched := 100\<rparr>)
        \<lparr>world = world_of [] 100 is_Exec, trace = [EvHas (fresh ''B'' ''png'')]\<rparr>
     = (Some (Errorf ''failed when executing mermaid: %w: %s: %s''
                [ArgE (ErrOther ''exit status 1''), ArgS [], ArgS ''Parse error'']),
        (fresh ''B'' ''png'')\<lparr>lastTouched := 100\<rparr>,
        \<lparr>world = (world_of [] 100 is_Exec)\<lparr>files := (files_of [])(''in/B.mmd'' \<mapsto> ''B'')\<rparr>,
         trace = [EvHas (fresh ''B'' ''png''), EvWriteFile ''in/B.mmd'' ''B'', EvStat ''/bin/mmdc'',
                  EvExec ''/bin/mmdc'' [''-i'', ''in/B.mmd'', ''-o'', ''out/B.png'']]\<rparr>)
   \<and> fst (Generate gen0 mem_rt (fresh ''B'' ''png'') (start (world_of [] 100 is_Exec)))
     = Some (Errorf ''cachingGenerater.generate failed: %w''
          [ArgE (Errorf ''failed when executing mermaid: %w: %s: %s''
                [ArgE (ErrOther ''exit status 1''), ArgS [], ArgS ''Parse error''])])
   \<and> fst (snd (Generate gen0 mem_rt (fresh ''B'' ''png'') (start (world_of [] 100 is_Exec))))
     = \<lparr>description = ''B'', imgType = ''png'', Output = [], lastTouched = 100\<rparr>"
  (is "?hit \<and> ?get \<and> ?now \<and> ?store \<and> ?err1 \<and> ?dia1 \<and> ?miss \<and> ?now2 \<and> ?fail \<and> ?err2 \<and> ?dia2")
proof -
  have hit: ?hit by (simp add: mem_defs)
  have get: ?get by (simp add: mem_defs)
  have now: ?now by (simp add: mem_defs)
  have store: ?store by (simp add: mem_defs)
  have miss: ?miss by (simp add: mem_defs)
  have now2: ?now2 by (simp add: mem_defs)
  have fail: ?fail by (simp add: mem_defs run_defs)
  then have fail': "generate gen0 mem_rt ((fresh ''B'' ''png'')\<lparr>lastTouched := 100\<rparr>)
        \<lparr>world = world_of [] 100 is_Exec,
         trace = trace (start (world_of [] 100 is_Exec)) @ [EvHas (fresh ''B'' ''png'')]\<rparr>
     = (Some (Errorf ''failed when executing mermaid: %w: %s: %s''
                [ArgE (ErrOther ''exit status 1''), ArgS [], ArgS ''Parse error'']),
        (fresh ''B'' ''png'')\<lparr>lastTouched := 100\<rparr>,
        \<lparr>world = (world_of [] 100 is_Exec)\<lparr>files := (files_of [])(''in/B.mmd'' \<mapsto> ''B'')\<rparr>,
         trace = [EvHas (fresh ''B'' ''png''), EvWriteFile ''in/B.mmd'' ''B'', EvStat ''/bin/mmdc'',
                  EvExec ''/bin/mmdc'' [''-i'', ''in/B.mmd'', ''-o'', ''out/B.png'']]\<rparr>)"
    by (simp add: start_def)
  note main = Generate_mutates_on_error [where c = gen0 and c' = gen0 and rt = mem_rt
      and rt' = mem_rt and diagram = "fresh ''A'' ''svg''" and diagram' = "fresh ''B'' ''png''"
      and s = "start (world_of [rendered ''A'' ''svg'' 5] 100 is_Store)"
      and s' = "start (world_of [] 100 is_Exec)"]
  note one = main [THEN conjunct1, rule_format, OF hit get now store]
  note two = main [THEN conjunct2, rule_format, OF miss now2 fail']
  from one have err1: ?err1 and dia1: ?dia1 by (simp_all add: rendered_def)
  from two have err2: ?err2 and dia2: ?dia2 by (simp_all add: fresh_def)
  from hit get now store err1 dia1 miss now2 fail err2 dia2 show ?thesis by blast
qed

subsection \<open>The input file and the missing executable\<close>

text \<open>
  Claim C10. On the miss path the description is written to \<open><inPath>/<id>.mmd\<close> before
  \<open>os.Stat\<close> looks at the executable. When the write succeeds and the executable does
  not exist, \<open>Generate\<close> returns the error after exactly three calls, \<open>Has\<close>, the write
  and \<open>Stat\<close>: the file is not removed again and nothing is stored in the cache; the
  world is the one \<open>Stat\<close> left.
\<close>

theorem Generate_backend_missing:
  assumes miss: "Has (cache c) diagram (world s) = (Inr False, w1)"
      and clock: "Now rt w1 = (t, w2)"
      and ident: "ID rt diagram = Inr ident"
      and wr: "WriteFile rt (inPath c @ ''/'' @ ident @ ''.mmd'') (description diagram) w2 = (None, w3)"
      and st: "Stat rt (mermaidCLIPath c) w3 = (Some err, w4)"
      and missing: "IsNotExist err"
  shows "Generate c rt diagram s =
           (Some (Errorf ''cachingGenerater.generate failed: %w''
                    [ArgE (Errorf ''mermaid executable does not exist: %w'' [ArgE err])]),
            diagram\<lparr>lastTouched := t\<rparr>,
            \<lparr>world = w4,
             trace = trace s @ [EvHas diagram,
                                EvWriteFile (inPath c @ ''/'' @ ident @ ''.mmd'') (description diagram),
                                EvStat (mermaidCLIPath c)]\<rparr>)"
proof -
  from ident have "ID rt (diagram\<lparr>lastTouched := t\<rparr>) = Inr ident" by (simp add: ID_def)
  with miss clock wr st missing show ?thesis
    by (simp add: Generate_def call_def Touch_def now_def generate_def generate_inPath_def Let_def)
qed

text \<open>
  The executable \<open>/opt/mmdc\<close> is not installed: afterwards the input file is on disk and
  the cache is empty.
\<close>

theorem Generate_backend_missing_witness:
  "Has (cache gen2) (fresh ''A'' ''svg'') (world (start (world_of [] 100 no_faults)))
     = (Inr False, world_of [] 100 no_faults)
   \<and> Now mem_rt (world_of [] 100 no_faults) = (100, world_of [] 100 no_faults)
   \<and> ID mem_rt (fresh ''A'' ''svg'') = Inr ''A''
   \<and> WriteFile mem_rt (inPath gen2 @ ''/'' @ ''A'' @ ''.mmd'') (description (fresh ''A'' ''svg''))
        (world_of [] 100 no_faults)
     = (None, (world_of [] 100 no_faults)\<lparr>files := (files_of [])(''in/A.mmd'' \<mapsto> ''A'')\<rparr>)
   \<and> Stat mem_rt (mermaidCLIPath gen2)
        ((world_of [] 100 no_faults)\<lparr>files := (files_of [])(''in/A.mmd'' \<mapsto> ''A'')\<rparr>)
     = (Some ErrNotExist, (world_of [] 100 no_faults)\<lparr>files := (files_of [])(''in/A.mmd'' \<mapsto> ''A'')\<rparr>)
   \<and> IsNotExist ErrNotExist
   \<and> Generate gen2 mem_rt (fresh ''A'' ''svg'') (start (world_of [] 100 no_faults))
     = (Some (Errorf ''cachingGenerater.generate failed: %w''
                [ArgE (Errorf ''mermaid executable does not exist: %w'' [ArgE ErrNotExist])]),
        (fresh ''A'' ''svg'')\<lparr>lastTouched := 100\<rparr>,
        \<lparr>world = (world_of [] 100 no_faults)\<lparr>files := (files_of [])(''in/A.mmd'' \<mapsto> ''A'')\<rparr>,
         trace = [EvHas (fresh ''A'' ''svg''), EvWriteFile ''in/A.mmd'' ''A'', EvStat ''/opt/mmdc'']\<rparr>)
   \<and> files (world (snd (snd (Generate gen2 mem_rt (fresh ''A'' ''svg'')
        (start (world_of [] 100 no_faults)))))) ''in/A.mmd'' = Some ''A''
   \<and> records (world (snd (snd (Generate gen2 mem_rt (fresh ''A'' ''svg'')
        (start (world_of [] 100 no_faults)))))) = []"
  (is "?miss \<and> ?now \<and> ?ident \<and> ?wr \<and> ?stat \<and> ?missing \<and> ?run \<and> ?kept \<and> ?recs")
proof -
  have miss: ?miss by (simp add: mem_defs)
  have now: ?now by (simp add: mem_defs)
  have ident: ?ident by (simp add: mem_defs ID_def)
  have wr: ?wr by (simp add: mem_defs)
  have stat: ?stat by (simp add: mem_defs)
  have missing: ?missing by simp
  note main = Generate_backend_missing [OF miss now ident wr stat missing]
  from main have run: ?run by (simp add: mem_defs)
  from main have kept: ?kept by (simp add: mem_defs)
  from main have recs: ?recs by (simp add: mem_defs)
  from miss now ident wr stat missing run kept recs show ?thesis by blast
qed

subsection \<open>The arguments of the renderer\<close>

text \<open>
  Claim C8. Every run of the renderer that \<open>generate\<close> starts is a run of the configured
  executable with the arguments \<open>-i <inPath>/<id>.mmd -o <outPath>/<id>.<imgType>\<close>,
  followed by \<open>-p <puppeteerConfigPath>\<close> exactly when that path is not empty. And the
  renderer is run whenever the identity, the write of the input file and \<open>Stat\<close> succeed.
\<close>

theorem generate_Exec_args:
  assumes run: "generate c rt diagram s = (res, d', s')"
  shows "(\<forall>p as. EvExec p as \<in> set (new_events s s') \<longrightarrow>
            p = mermaidCLIPath c
          \<and> (\<exists>ident. ID rt diagram = Inr ident
               \<and> as = [''-i'', inPath c @ ''/'' @ ident @ ''.mmd'',
                       ''-o'', outPath c @ ''/'' @ ident @ ''.'' @ imgType diagram]
                      @ (if puppeteerConfigPath c = [] then [] else [''-p'', puppeteerConfigPath c])))
       \<and> (\<forall>ident w1 w2. ID rt diagram = Inr ident \<longrightarrow>
            WriteFile rt (inPath c @ ''/'' @ ident @ ''.mmd'') (description diagram) (world s) = (None, w1) \<longrightarrow>
            Stat rt (mermaidCLIPath c) w1 = (None, w2) \<longrightarrow>
            (\<exists>as. EvExec (mermaidCLIPath c) as \<in> set (new_events s s')))"
  using run
  by (auto simp: generate_def call_def Printf_def new_events_def generate_inPath_def
        generate_outPath_def mermaid_args_def Let_def
      split: sum.splits prod.splits option.splits if_splits)

text \<open>A png diagram rendered with and without a puppeteer file.\<close>

theorem generate_Exec_args_witness:
  "generate gen1 mem_rt (fresh ''A'' ''png'') (start (world_of [] 100 no_faults))
     = (None, (fresh ''A'' ''png'')\<lparr>Output := ''out/A.png''\<rparr>,
        \<lparr>world = (world_of [] 100 no_faults)
                   \<lparr>files := (files_of [])(''in/A.mmd'' \<mapsto> ''A'', ''out/A.png'' \<mapsto> ''image'')\<rparr>,
         trace = [EvWriteFile ''in/A.mmd'' ''A'', EvStat ''/bin/mmdc'',
                  EvExec ''/bin/mmdc'' [''-i'', ''in/A.mmd'', ''-o'', ''out/A.png'',
                                        ''-p'', ''/etc/puppeteer.json''],
                  EvLog ''Generated: %s: %s: %s'' [''A'', ''Generating single mermaid chart'', []]]\<rparr>)
   \<and> (\<exists>ident. ID mem_rt (fresh ''A'' ''png'') = Inr ident
        \<and> [''-i'', ''in/A.mmd'', ''-o'', ''out/A.png'', ''-p'', ''/etc/puppeteer.json'']
          = [''-i'', inPath gen1 @ ''/'' @ ident @ ''.mmd'',
             ''-o'', outPath gen1 @ ''/'' @ ident @ ''.'' @ imgType (fresh ''A'' ''png'')]
            @ (if puppeteerConfigPath gen1 = [] then [] else [''-p'', puppeteerConfigPath gen1]))
   \<and> generate gen0 mem_rt (fresh ''A'' ''png'') (start (world_of [] 100 no_faults))
     = (None, (fresh ''A'' ''png'')\<lparr>Output := ''out/A.png''\<rparr>,
        \<lparr>world = (world_of [] 100 no_faults)
                   \<lparr>files := (files_of [])(''in/A.mmd'' \<mapsto> ''A'', ''out/A.png'' \<mapsto> ''image'')\<rparr>,
         trace = [EvWriteFile ''in/A.mmd'' ''A'', EvStat ''/bin/mmdc'',
                  EvExec ''/bin/mmdc'' [''-i'', ''in/A.mmd'', ''-o'', ''out/A.png''],
                  EvLog ''Generated: %s: %s: %s'' [''A'', ''Generating single mermaid chart'', []]]\<rparr>)
   \<and> (\<exists>ident. ID mem_rt (fresh ''A'' ''png'') = Inr ident
        \<and> [''-i'', ''in/A.mmd'', ''-o'', ''out/A.png'']
          = [''-i'', inPath gen0 @ ''/'' @ ident @ ''.mmd'',
             ''-o'', outPath gen0 @ ''/'' @ ident @ ''.'' @ imgType (fresh ''A'' ''png'')]
            @ (if puppeteerConfigPath gen0 = [] then [] else [''-p'', puppeteerConfigPath gen0]))"
  (is "?run1 \<and> ?args1 \<and> ?run0 \<and> ?args0")
proof -
  have run1: ?run1 by (simp add: mem_defs run_defs)
  have run0: ?run0 by (simp add: mem_defs run_defs)
  note main1 = generate_Exec_args [OF run1, THEN conjunct1, rule_format,
      of "''/bin/mmdc''" "[''-i'', ''in/A.mmd'', ''-o'', ''out/A.png'', ''-p'', ''/etc/puppeteer.json'']"]
  note main0 = generate_Exec_args [OF run0, THEN conjunct1, rule_format,
      of "''/bin/mmdc''" "[''-i'', ''in/A.mmd'', ''-o'', ''out/A.png'']"]
  have args1: ?args1 using main1 by (simp add: new_events_def start_def)
  have args0: ?args0 using main0 by (simp add: new_events_def start_def)
  from run1 args1 run0 args0 show ?thesis by blast
qed

subsection \<open>The paths of generate and of delete\<close>

lemma delete_events:
  assumes ident: "ID rt diagram = Inr ident" and run: "delete c rt diagram s = (res, s')"
  shows "\<exists>n. trace s' = trace s @ take n [EvLog ''Cleaning up diagram: %s'' [ident],
            EvRemove (delete_inPath c ident), EvRemove (delete_outPath c ident), EvDelete diagram]"
proof -
  let ?evs = "[EvLog ''Cleaning up diagram: %s'' [ident],
            EvRemove (delete_inPath c ident), EvRemove (delete_outPath c ident), EvDelete diagram]"
  from assms have "trace s' = trace s @ take 2 ?evs \<or> trace s' = trace s @ take 3 ?evs
      \<or> trace s' = trace s @ take 4 ?evs"
    by (auto simp: delete_def Let_def call_def Printf_def
        split: prod.splits option.splits)
  then show ?thesis by blast
qed

lemma delete_attempts:
  assumes ident: "ID rt diagram = Inr ident" and run: "delete c rt diagram s = (res, s')"
  shows "EvRemove (delete_inPath c ident) \<in> set (new_events s s')"
    and "Remove rt (delete_inPath c ident) (world s) = (None, w1) \<Longrightarrow>
         EvRemove (delete_outPath c ident) \<in> set (new_events s s')"
  using assms
  by (auto simp: delete_def Let_def call_def Printf_def new_events_def
      split: prod.splits option.splits)

text \<open>
  Claim C2. \<open>generate\<close> names the rendered file \<open><outPath>/<id>.<imgType>\<close>: it passes that
  path to the renderer after \<open>-o\<close> and records it in \<open>Output\<close>. \<open>delete\<close> attempts to
  remove \<open><inPath>/<id>.mmd\<close> and, once that is removed, \<open><outPath>/<id>.svg\<close>, and
  attempts no other removal. For a diagram whose image type is not \<open>svg\<close>, the output
  path that \<open>delete\<close> attempts to remove is not the path \<open>generate\<close> wrote: the rendered
  file is not among the removals of \<open>delete\<close> (unless it is the input file itself).
\<close>

theorem delete_outPath_differs:
  assumes ty: "imgType diagram \<noteq> ''svg''"
      and ident: "ID rt diagram = Inr ident"
      and gen: "generate c rt diagram s = (None, d', s')"
      and del: "delete c rt d' s2 = (res, s3)"
  shows "Output d' = outPath c @ ''/'' @ ident @ ''.'' @ imgType diagram
       \<and> EvExec (mermaidCLIPath c)
            ([''-i'', inPath c @ ''/'' @ ident @ ''.mmd'', ''-o'', Output d']
             @ (if puppeteerConfigPath c = [] then [] else [''-p'', puppeteerConfigPath c]))
           \<in> set (new_events s s')
       \<and> EvRemove (inPath c @ ''/'' @ ident @ ''.mmd'') \<in> set (new_events s2 s3)
       \<and> (\<forall>w1. Remove rt (inPath c @ ''/'' @ ident @ ''.mmd'') (world s2) = (None, w1) \<longrightarrow>
             EvRemove (outPath c @ ''/'' @ ident @ ''.svg'') \<in> set (new_events s2 s3))
       \<and> (\<forall>p. EvRemove p \<in> set (new_events s2 s3) \<longrightarrow>
             p = inPath c @ ''/'' @ ident @ ''.mmd'' \<or> p = outPath c @ ''/'' @ ident @ ''.svg'')
       \<and> outPath c @ ''/'' @ ident @ ''.svg'' \<noteq> Output d'
       \<and> (EvRemove (Output d') \<in> set (new_events s2 s3) \<longrightarrow>
             Output d' = inPath c @ ''/'' @ ident @ ''.mmd'')"
proof -
  from gen ident have out: "d' = diagram\<lparr>Output := outPath c @ ''/'' @ ident @ ''.'' @ imgType diagram\<rparr>"
    by (auto simp: generate_def Let_def generate_outPath_def
        split: prod.splits option.splits if_splits)
  then have c1: "Output d' = outPath c @ ''/'' @ ident @ ''.'' @ imgType diagram" by simp
  from gen ident have "EvExec (mermaidCLIPath c)
            ([''-i'', inPath c @ ''/'' @ ident @ ''.mmd'',
              ''-o'', outPath c @ ''/'' @ ident @ ''.'' @ imgType diagram]
             @ (if puppeteerConfigPath c = [] then [] else [''-p'', puppeteerConfigPath c]))
           \<in> set (new_events s s')"
    by (auto simp: generate_def Let_def generate_inPath_def generate_outPath_def mermaid_args_def
          call_def Printf_def new_events_def
        split: prod.splits option.splits if_splits)
  with c1 have c2: "EvExec (mermaidCLIPath c)
            ([''-i'', inPath c @ ''/'' @ ident @ ''.mmd'', ''-o'', Output d']
             @ (if puppeteerConfigPath c = [] then [] else [''-p'', puppeteerConfigPath c]))
           \<in> set (new_events s s')"
    by simp
  from out ident have id': "ID rt d' = Inr ident" by (simp add: ID_def)
  from delete_attempts(1) [OF id' del]
  have c3: "EvRemove (inPath c @ ''/'' @ ident @ ''.mmd'') \<in> set (new_events s2 s3)"
    by (simp add: delete_inPath_def)
  have c4: "\<forall>w1. Remove rt (inPath c @ ''/'' @ ident @ ''.mmd'') (world s2) = (None, w1) \<longrightarrow>
             EvRemove (outPath c @ ''/'' @ ident @ ''.svg'') \<in> set (new_events s2 s3)"
    using delete_attempts(2) [OF id' del] by (simp add: delete_inPath_def delete_outPath_def)
  from delete_events [OF id' del] obtain n where
    "new_events s2 s3 = take n [EvLog ''Cleaning up diagram: %s'' [ident],
            EvRemove (delete_inPath c ident), EvRemove (delete_outPath c ident), EvDelete d']"
    by (auto simp: new_events_def)
  then have c5: "\<forall>p. EvRemove p \<in> set (new_events s2 s3) \<longrightarrow>
             p = inPath c @ ''/'' @ ident @ ''.mmd'' \<or> p = outPath c @ ''/'' @ ident @ ''.svg''"
    by (auto simp: delete_inPath_def delete_outPath_def dest!: in_set_takeD)
  from c1 ty have c6: "outPath c @ ''/'' @ ident @ ''.svg'' \<noteq> Output d'" by simp
  have c7: "EvRemove (Output d') \<in> set (new_events s2 s3) \<longrightarrow>
             Output d' = inPath c @ ''/'' @ ident @ ''.mmd''"
  proof
    assume "EvRemove (Output d') \<in> set (new_events s2 s3)"
    with c5 [rule_format, of "Output d'"]
    have "Output d' = inPath c @ ''/'' @ ident @ ''.mmd''
        \<or> Output d' = outPath c @ ''/'' @ ident @ ''.svg''" .
    with c6 show "Output d' = inPath c @ ''/'' @ ident @ ''.mmd''" by (elim disjE) simp_all
  qed
  show ?thesis by (intro conjI) (fact c1, fact c2, fact c3, fact c4, fact c5, fact c6, fact c7)
qed

text \<open>
  A png diagram: the clean-up of the rendered diagram removes the input file, attempts
  \<open>out/A.svg\<close>, which does not exist, and leaves \<open>out/A.png\<close>.
\<close>

theorem delete_outPath_differs_witness:
  "imgType (fresh ''A'' ''png'') \<noteq> ''svg''
   \<and> ID mem_rt (fresh ''A'' ''png'') = Inr ''A''
   \<and> generate gen0 mem_rt (fresh ''A'' ''png'') (start (world_of [] 100 no_faults))
     = (None, (fresh ''A'' ''png'')\<lparr>Output := ''out/A.png''\<rparr>,
        \<lparr>world = (world_of [] 100 no_faults)
                   \<lparr>files := (files_of [])(''in/A.mmd'' \<mapsto> ''A'', ''out/A.png'' \<mapsto> ''image'')\<rparr>,
         trace = [EvWriteFile ''in/A.mmd'' ''A'', EvStat ''/bin/mmdc'',
                  EvExec ''/bin/mmdc'' [''-i'', ''in/A.mmd'', ''-o'', ''out/A.png''],
                  EvLog ''Generated: %s: %s: %s'' [''A'', ''Generating single mermaid chart'', []]]\<rparr>)
   \<and> delete gen0 mem_rt ((fresh ''A'' ''png'')\<lparr>Output := ''out/A.png''\<rparr>)
        (start ((world_of [] 100 no_faults)
                   \<lparr>files := (files_of [])(''in/A.mmd'' \<mapsto> ''A'', ''out/A.png'' \<mapsto> ''image'')\<rparr>))
     = (Some (Errorf ''could not delete diagram output: %w'' [ArgE ErrNotExist]),
        \<lparr>world = (world_of [] 100 no_faults)
                   \<lparr>files := (files_of [])(''in/A.mmd'' := None, ''out/A.png'' \<mapsto> ''image'')\<rparr>,
         trace = [EvLog ''Cleaning up diagram: %s'' [''A''], EvRemove ''in/A.mmd'',
                  EvRemove ''out/A.svg'']\<rparr>)
   \<and> Remove mem_rt (inPath gen0 @ ''/'' @ ''A'' @ ''.mmd'')
        (world (start ((world_of [] 100 no_faults)
                   \<lparr>files := (files_of [])(''in/A.mmd'' \<mapsto> ''A'', ''out/A.png'' \<mapsto> ''image'')\<rparr>)))
     = (None, (world_of [] 100 no_faults)
                   \<lparr>files := (files_of [])(''in/A.mmd'' := None, ''out/A.png'' \<mapsto> ''image'')\<rparr>)
   \<and> Output ((fresh ''A'' ''png'')\<lparr>Output := ''out/A.png''\<rparr>)
     = outPath gen0 @ ''/'' @ ''A'' @ ''.'' @ imgType (fresh ''A'' ''png'')
   \<and> EvRemove (outPath gen0 @ ''/'' @ ''A'' @ ''.svg'')
       \<in> set (new_events
           (start ((world_of [] 100 no_faults)
                   \<lparr>files := (files_of [])(''in/A.mmd'' \<mapsto> ''A'', ''out/A.png'' \<mapsto> ''image'')\<rparr>))
           \<lparr>world = (world_of [] 100 no_faults)
                   \<lparr>files := (files_of [])(''in/A.mmd'' := None, ''out/A.png'' \<mapsto> ''image'')\<rparr>,
            trace = [EvLog ''Cleaning up diagram: %s'' [''A''], EvRemove ''in/A.mmd'',
                     EvRemove ''out/A.svg'']\<rparr>)
   \<and> outPath gen0 @ ''/'' @ ''A'' @ ''.svg'' \<noteq> Output ((fresh ''A'' ''png'')\<lparr>Output := ''out/A.png''\<rparr>)
   \<and> EvRemove (Output ((fresh ''A'' ''png'')\<lparr>Output := ''out/A.png''\<rparr>))
       \<notin> set (new_events
           (start ((world_of [] 100 no_faults)
                   \<lparr>files := (files_of [])(''in/A.mmd'' \<mapsto> ''A'', ''out/A.png'' \<mapsto> ''image'')\<rparr>))
           \<lparr>world = (world_of [] 100 no_faults)
                   \<lparr>files := (files_of [])(''in/A.mmd'' := None, ''out/A.png'' \<mapsto> ''image'')\<rparr>,
            trace = [EvLog ''Cleaning up diagram: %s'' [''A''], EvRemove ''in/A.mmd'',
                     EvRemove ''out/A.svg'']\<rparr>)"
  (is "?ty \<and> ?ident \<and> ?gen \<and> ?del \<and> ?rm \<and> ?out \<and> ?attempt \<and> ?differs \<and> ?spared")
proof -
  have ty: ?ty by (simp add: mem_defs)
  have ident: ?ident by (simp add: mem_defs ID_def)
  have gen: ?gen by (simp add: mem_defs run_defs)
  have del: ?del by (simp add: mem_defs run_defs fun_upd_twist)
  have rm: ?rm by (simp add: mem_defs fun_upd_twist)
  note main = delete_outPath_differs [OF ty ident gen del]
  from main have out: ?out and differs: ?differs by blast+
  from main rm have attempt: ?attempt by blast
  have "Output ((fresh ''A'' ''png'')\<lparr>Output := ''out/A.png''\<rparr>) \<noteq> inPath gen0 @ ''/'' @ ''A'' @ ''.mmd''"
    by (simp add: mem_defs)
  with main have spared: ?spared by blast
  from ty ident gen del rm out attempt differs spared show ?thesis by blast
qed

subsection \<open>The three steps of delete\<close>

text \<open>
  Claim C6. \<open>delete\<close> removes the input file, then the output file, then the cache record,
  in this order, and stops at the first step that fails; it calls nothing after a failed
  step, so the steps that succeeded before are not undone: the world is the one the
  failed step left. (The output file is the path \<open><outPath>/<id>.svg\<close>.)
\<close>

theorem delete_steps:
  assumes ident: "ID rt diagram = Inr ident"
      and run: "delete c rt diagram s = (res, s')"
  shows "(\<forall>err w1. Remove rt (inPath c @ ''/'' @ ident @ ''.mmd'') (world s) = (Some err, w1) \<longrightarrow>
            new_events s s' = [EvLog ''Cleaning up diagram: %s'' [ident],
                               EvRemove (inPath c @ ''/'' @ ident @ ''.mmd'')]
          \<and> world s' = w1
          \<and> res = Some (Errorf ''could not delete diagram input: %w'' [ArgE err]))
       \<and> (\<forall>w1 err w2. Remove rt (inPath c @ ''/'' @ ident @ ''.mmd'') (world s) = (None, w1) \<longrightarrow>
            Remove rt (outPath c @ ''/'' @ ident @ ''.svg'') w1 = (Some err, w2) \<longrightarrow>
            new_events s s' = [EvLog ''Cleaning up diagram: %s'' [ident],
                               EvRemove (inPath c @ ''/'' @ ident @ ''.mmd''),
                               EvRemove (outPath c @ ''/'' @ ident @ ''.svg'')]
          \<and> world s' = w2
          \<and> res = Some (Errorf ''could not delete diagram output: %w'' [ArgE err]))
       \<and> (\<forall>w1 w2 r w3. Remove rt (inPath c @ ''/'' @ ident @ ''.mmd'') (world s) = (None, w1) \<longrightarrow>
            Remove rt (outPath c @ ''/'' @ ident @ ''.svg'') w1 = (None, w2) \<longrightarrow>
            Delete (cache c) diagram w2 = (r, w3) \<longrightarrow>
            new_events s s' = [EvLog ''Cleaning up diagram: %s'' [ident],
                               EvRemove (inPath c @ ''/'' @ ident @ ''.mmd''),
                               EvRemove (outPath c @ ''/'' @ ident @ ''.svg''),
                               EvDelete diagram]
          \<and> world s' = w3
          \<and> res = map_option (\<lambda>err. Errorf ''could not remove diagram from cache: %w'' [ArgE err]) r)"
  using assms
  by (auto simp: delete_def Let_def call_def Printf_def new_events_def delete_inPath_def
        delete_outPath_def split: prod.splits option.splits)

text \<open>
  The output file cannot be removed: the input file is gone, the cache still holds the
  record.
\<close>

theorem delete_steps_witness:
  "ID mem_rt (rendered ''A'' ''svg'' 5) = Inr ''A''
   \<and> delete gen0 mem_rt (rendered ''A'' ''svg'' 5) (start (world_of [rendered ''A'' ''svg'' 5] 100 out_denied))
     = (Some (Errorf ''could not delete diagram output: %w'' [ArgE (ErrOther ''permission denied'')]),
        \<lparr>world = (world_of [rendered ''A'' ''svg'' 5] 100 out_denied)
                   \<lparr>files := (files_of [rendered ''A'' ''svg'' 5])(''in/A.mmd'' := None)\<rparr>,
         trace = [EvLog ''Cleaning up diagram: %s'' [''A''], EvRemove ''in/A.mmd'',
                  EvRemove ''out/A.svg'']\<rparr>)
   \<and> Remove mem_rt (inPath gen0 @ ''/'' @ ''A'' @ ''.mmd'')
        (world (start (world_of [rendered ''A'' ''svg'' 5] 100 out_denied)))
     = (None, (world_of [rendered ''A'' ''svg'' 5] 100 out_denied)
                   \<lparr>files := (files_of [rendered ''A'' ''svg'' 5])(''in/A.mmd'' := None)\<rparr>)
   \<and> Remove mem_rt (outPath gen0 @ ''/'' @ ''A'' @ ''.svg'')
        ((world_of [rendered ''A'' ''svg'' 5] 100 out_denied)
                   \<lparr>files := (files_of [rendered ''A'' ''svg'' 5])(''in/A.mmd'' := None)\<rparr>)
     = (Some (ErrOther ''permission denied''),
        (world_of [rendered ''A'' ''svg'' 5] 100 out_denied)
                   \<lparr>files := (files_of [rendered ''A'' ''svg'' 5])(''in/A.mmd'' := None)\<rparr>)
   \<and> new_events (start (world_of [rendered ''A'' ''svg'' 5] 100 out_denied))
        \<lparr>world = (world_of [rendered ''A'' ''svg'' 5] 100 out_denied)
                   \<lparr>files := (files_of [rendered ''A'' ''svg'' 5])(''in/A.mmd'' := None)\<rparr>,
         trace = [EvLog ''Cleaning up diagram: %s'' [''A''], EvRemove ''in/A.mmd'',
                  EvRemove ''out/A.svg'']\<rparr>
     = [EvLog ''Cleaning up diagram: %s'' [''A''], EvRemove (inPath gen0 @ ''/'' @ ''A'' @ ''.mmd''),
        EvRemove (outPath gen0 @ ''/'' @ ''A'' @ ''.svg'')]
   \<and> files ((world_of [rendered ''A'' ''svg'' 5] 100 out_denied)
                   \<lparr>files := (files_of [rendered ''A'' ''svg'' 5])(''in/A.mmd'' := None)\<rparr>)
         ''in/A.mmd'' = None
   \<and> map_of (records ((world_of [rendered ''A'' ''svg'' 5] 100 out_denied)
                   \<lparr>files := (files_of [rendered ''A'' ''svg'' 5])(''in/A.mmd'' := None)\<rparr>))
         ''A'' = Some (rendered ''A'' ''svg'' 5)"
  (is "?ident \<and> ?run \<and> ?rm1 \<and> ?rm2 \<and> ?events \<and> ?gone \<and> ?held")
proof -
  have ident: ?ident by (simp add: mem_defs ID_def)
  have run: ?run by (simp add: mem_defs run_defs out_denied_def)
  have rm1: ?rm1 by (simp add: mem_defs out_denied_def)
  have rm2: ?rm2 by (simp add: mem_defs out_denied_def)
  note main = delete_steps [OF ident run, THEN conjunct2, THEN conjunct1, rule_format, OF rm1 rm2]
  from main have events: ?events by blast
  have gone: ?gone by (simp add: mem_defs)
  have held: ?held by (simp add: mem_defs)
  from ident run rm1 rm2 events gone held show ?thesis by blast
qed

subsection \<open>The sweep\<close>

lemma CleanUp_loop_append:
  "CleanUp_loop c rt duration pre s = (None, s2) \<Longrightarrow>
   CleanUp_loop c rt duration (pre @ rest) s = CleanUp_loop c rt duration rest s2"
proof (induction pre arbitrary: s)
  case Nil
  then show ?case by simp
next
  case (Cons d pre)
  then show ?case
    by (auto split: prod.splits if_splits option.splits)
qed

text \<open>
  Claim C1, as amended. A failure to delete one record ends the sweep: \<open>CleanUp\<close> returns
  that error, wrapped, in the state the failed \<open>delete\<close> left. The records enumerated
  before it have been processed; the records enumerated after it (\<open>post\<close>) are neither
  examined nor deleted, whatever their time stamps.
\<close>

theorem CleanUp_stops_at_first_failure:
  assumes all: "GetAll (cache c) (world s) = (Inr (pre @ d # post), w1)"
      and pre: "CleanUp_loop c rt duration pre
                  \<lparr>world = w1, trace = trace s @ [EvLog ''Running cleanup'' [], EvGetAll]\<rparr> = (None, s2)"
      and stale: "TouchedInDuration rt d duration s2 = (False, s3)"
      and fail: "delete c rt d s3 = (Some err, s4)"
  shows "CleanUp c rt duration s = (Some (Errorf ''could not delete diagram: %w'' [ArgE err]), s4)"
proof -
  from all have "CleanUp c rt duration s = CleanUp_loop c rt duration (pre @ d # post)
      \<lparr>world = w1, trace = trace s @ [EvLog ''Running cleanup'' [], EvGetAll]\<rparr>"
    by (simp add: CleanUp_def call_def Printf_def)
  also from CleanUp_loop_append [OF pre] have "\<dots> = CleanUp_loop c rt duration (d # post) s2" .
  also from stale fail have "\<dots> = (Some (Errorf ''could not delete diagram: %w'' [ArgE err]), s4)"
    by simp
  finally show ?thesis .
qed

text \<open>
  Three records outside the window of 10: \<open>C\<close> is deleted, the input file of \<open>A\<close> cannot be
  removed, and \<open>B\<close> is still there, record and files, when \<open>CleanUp\<close> returns.
\<close>

theorem CleanUp_stops_at_first_failure_witness:
  "GetAll (cache gen0) (world (start three))
     = (Inr ([rendered ''C'' ''svg'' 5] @ rendered ''A'' ''svg'' 5 # [rendered ''B'' ''svg'' 5]), three)
   \<and> CleanUp_loop gen0 mem_rt 10 [rendered ''C'' ''svg'' 5]
        \<lparr>world = three, trace = [EvLog ''Running cleanup'' [], EvGetAll]\<rparr>
     = (None,
        \<lparr>world = three_swept,
         trace = [EvLog ''Running cleanup'' [], EvGetAll,
                  EvLog ''Cleaning up diagram: %s'' [''C''], EvRemove ''in/C.mmd'',
                  EvRemove ''out/C.svg'', EvDelete (rendered ''C'' ''svg'' 5)]\<rparr>)
   \<and> TouchedInDuration mem_rt (rendered ''A'' ''svg'' 5) 10
        \<lparr>world = three_swept,
         trace = [EvLog ''Running cleanup'' [], EvGetAll,
                  EvLog ''Cleaning up diagram: %s'' [''C''], EvRemove ''in/C.mmd'',
                  EvRemove ''out/C.svg'', EvDelete (rendered ''C'' ''svg'' 5)]\<rparr>
     = (False,
        \<lparr>world = three_swept,
         trace = [EvLog ''Running cleanup'' [], EvGetAll,
                  EvLog ''Cleaning up diagram: %s'' [''C''], EvRemove ''in/C.mmd'',
                  EvRemove ''out/C.svg'', EvDelete (rendered ''C'' ''svg'' 5)]\<rparr>)
   \<and> delete gen0 mem_rt (rendered ''A'' ''svg'' 5)
        \<lparr>world = three_swept,
         trace = [EvLog ''Running cleanup'' [], EvGetAll,
                  EvLog ''Cleaning up diagram: %s'' [''C''], EvRemove ''in/C.mmd'',
                  EvRemove ''out/C.svg'', EvDelete (rendered ''C'' ''svg'' 5)]\<rparr>
     = (Some (Errorf ''could not delete diagram input: %w'' [ArgE (ErrOther ''permission denied'')]),
        \<lparr>world = three_swept,
         trace = [EvLog ''Running cleanup'' [], EvGetAll,
                  EvLog ''Cleaning up diagram: %s'' [''C''], EvRemove ''in/C.mmd'',
                  EvRemove ''out/C.svg'', EvDelete (rendered ''C'' ''svg'' 5),
                  EvLog ''Cleaning up diagram: %s'' [''A''], EvRemove ''in/A.mmd'']\<rparr>)
   \<and> CleanUp gen0 mem_rt 10 (start three)
     = (Some (Errorf ''could not delete diagram: %w''
               [ArgE (Errorf ''could not delete diagram input: %w''
                        [ArgE (ErrOther ''permission denied'')])]),
        \<lparr>world = three_swept,
         trace = [EvLog ''Running cleanup'' [], EvGetAll,
                  EvLog ''Cleaning up diagram: %s'' [''C''], EvRemove ''in/C.mmd'',
                  EvRemove ''out/C.svg'', EvDelete (rendered ''C'' ''svg'' 5),
                  EvLog ''Cleaning up diagram: %s'' [''A''], EvRemove ''in/A.mmd'']\<rparr>)
   \<and> map_of (records three_swept) ''B'' = Some (rendered ''B'' ''svg'' 5)
   \<and> files three_swept ''out/B.svg'' = Some ''image''"
  (is "?all \<and> ?pre \<and> ?stale \<and> ?fail \<and> ?sweep \<and> ?held \<and> ?kept")
proof -
  have all: ?all by (simp add: mem_defs three_def)
  have pre: ?pre by (simp add: mem_defs run_defs three_def three_swept_def inA_denied_def)
  then have pre': "CleanUp_loop gen0 mem_rt 10 [rendered ''C'' ''svg'' 5]
        \<lparr>world = three,
         trace = trace (start three) @ [EvLog ''Running cleanup'' [], EvGetAll]\<rparr>
     = (None,
        \<lparr>world = three_swept,
         trace = [EvLog ''Running cleanup'' [], EvGetAll,
                  EvLog ''Cleaning up diagram: %s'' [''C''], EvRemove ''in/C.mmd'',
                  EvRemove ''out/C.svg'', EvDelete (rendered ''C'' ''svg'' 5)]\<rparr>)"
    by (simp add: start_def)
  have stale: ?stale by (simp add: mem_defs run_defs three_def three_swept_def)
  have fail: ?fail by (simp add: mem_defs run_defs three_def three_swept_def inA_denied_def)
  note main = CleanUp_stops_at_first_failure [OF all pre' stale fail]
  from main have sweep: ?sweep .
  have held: ?held by (simp add: mem_defs three_def three_swept_def)
  have kept: ?kept by (simp add: mem_defs three_def three_swept_def)
  from all pre stale fail sweep held kept show ?thesis by blast
qed

text \<open>
  Claim C1 as stated fails: the sweep does not continue after a failure. The cache holds
  \<open>A\<close> and \<open>B\<close>, both touched at 5 and so outside the window of 10 at time 100. Removing the
  input file of \<open>A\<close> fails. \<open>CleanUp\<close> returns after that call: \<open>B\<close> is not examined, its
  record and files remain, although deleting \<open>B\<close> would succeed.
\<close>

theorem CleanUp_isolation_counterexample:
  "CleanUp gen0 mem_rt 10
     (start (world_of [rendered ''A'' ''svg'' 5, rendered ''B'' ''svg'' 5] 100 inA_denied))
     = (Some (Errorf ''could not delete diagram: %w''
               [ArgE (Errorf ''could not delete diagram input: %w''
                        [ArgE (ErrOther ''permission denied'')])]),
        \<lparr>world = world_of [rendered ''A'' ''svg'' 5, rendered ''B'' ''svg'' 5] 100 inA_denied,
         trace = [EvLog ''Running cleanup'' [], EvGetAll,
                  EvLog ''Cleaning up diagram: %s'' [''A''], EvRemove ''in/A.mmd'']\<rparr>)
   \<and> fst (TouchedInDuration mem_rt (rendered ''B'' ''svg'' 5) 10
          (start (world_of [rendered ''A'' ''svg'' 5, rendered ''B'' ''svg'' 5] 100 inA_denied)))
     = False
   \<and> map_of (records (world_of [rendered ''A'' ''svg'' 5, rendered ''B'' ''svg'' 5] 100 inA_denied))
        ''B'' = Some (rendered ''B'' ''svg'' 5)
   \<and> files (world_of [rendered ''A'' ''svg'' 5, rendered ''B'' ''svg'' 5] 100 inA_denied)
        ''in/B.mmd'' = Some ''B''
   \<and> files (world_of [rendered ''A'' ''svg'' 5, rendered ''B'' ''svg'' 5] 100 inA_denied)
        ''out/B.svg'' = Some ''image''
   \<and> fst (delete gen0 mem_rt (rendered ''B'' ''svg'' 5)
          (start (world_of [rendered ''A'' ''svg'' 5, rendered ''B'' ''svg'' 5] 100 inA_denied)))
     = None"
  by (simp add: mem_defs run_defs CleanUp_def inA_denied_def)

subsection \<open>The retention window\<close>











end
